theory Spec2Isabelle
  imports Main "HOL-Library.Word" "HOL-Library.Signed_Division"
begin

unbundle bit_operations_syntax

section \<open>Window tracking and drag detection of plasmasnow (windows.c)\<close>

text \<open>
  A shallow embedding of \<^verbatim>\<open>src/windows.c\<close>. The module's globals, the fields of
  \<^verbatim>\<open>mGlobal\<close> and \<^verbatim>\<open>Flags\<close> it touches and its function-local statics are
  the fields of one state record, which every function takes and returns. What the X
  server, libxdo and the other modules of the program answer during one call is an
  environment record that the function reads. Calls that leave the module (to the
  accumulation engine, to the X server) are appended to a call log carried by the state,
  so that "is invoked once" and "no probe window operation" are statements about the log.
\<close>

subsection \<open>Integers and identifiers\<close>

text \<open>
  A \<^verbatim>\<open>Window\<close> is an XID (\<^verbatim>\<open>unsigned long\<close>); the code only compares
  window ids, so they are naturals, and \<^verbatim>\<open>None\<close> is \<open>0\<close>. A C \<^verbatim>\<open>int\<close> is a
  HOL \<open>int\<close>, and \<open>int32\<close> is written wherever the code does arithmetic on it.
\<close>

type_synonym Window = nat

definition X_None :: Window where
  "X_None = 0"

definition int32 :: "int \<Rightarrow> int" where
  "int32 v = (v + 2147483648) mod 4294967296 - 2147483648"

definition mINVALID_POSITION :: int where
  "mINVALID_POSITION = - 1"

subsection \<open>Data\<close>

text \<open>The fields of \<^verbatim>\<open>WinInfo\<close> that windows.c reads or writes.\<close>

record WinInfo =
  wi_window :: Window
  wi_x :: int
  wi_y :: int

record XineramaScreenInfo =
  xi_screen_number :: int
  xi_x_org :: int
  xi_y_org :: int
  xi_width :: int
  xi_height :: int

text \<open>\<^verbatim>\<open>event->xcreatewindow\<close> and \<^verbatim>\<open>event->xmap\<close>.\<close>

record XCreateWindowEvent =
  xcreatewindow_send_event :: int
  xcreatewindow_parent :: Window
  xcreatewindow_window :: Window
  xcreatewindow_x :: int
  xcreatewindow_y :: int
  xcreatewindow_width :: int
  xcreatewindow_height :: int
  xcreatewindow_border_width :: int
  xcreatewindow_override_redirect :: int

record XMapEvent =
  xmap_send_event :: int
  xmap_event :: Window
  xmap_window :: Window
  xmap_override_redirect :: int

text \<open>Calls that leave windows.c, in the order they are made.\<close>

datatype xcall =
    Call_getWinInfoForAllWindows
  | Call_removeFallenSnowFromWindow Window
  | Call_removeFallenSnowFromAllWindows
  | Call_doAllFallenSnowWinInfoUpdates
  | Call_softLockFallenSnowBaseSemaphore
  | Call_unlockFallenSnowSemaphore
  | Call_getCurrentWorkspaceNumber
  | Call_printf string
  | Call_displayMessageBox string string
  | Call_XInternAtom string
  | Call_XDestroyWindow Window
  | Call_XCreateWindow Window
  | Call_XSetClassHint Window
  | Call_XSetWMNormalHints Window
  | Call_XChangeProperty Window
  | Call_xdo_map_window Window
  | Call_xdo_move_window Window int int
  | Call_xdo_wait_for_window_map_state Window
  | Call_xdo_unmap_window Window

text \<open>
  The answers of the collaborators during one call. None of these functions is under
  src/, so each is a parameter:
  \<^item> \<open>env_softLock maxSoftTries tryCount\<close> is the return code of
    \<^verbatim>\<open>softLockFallenSnowBaseSemaphore\<close> (non-zero: the lock was not taken) and the
    value it leaves in \<^verbatim>\<open>*tryCount\<close>;
  \<^item> \<open>env_currentWorkspaceNumber\<close> is what \<^verbatim>\<open>getCurrentWorkspaceNumber\<close> returns;
  \<^item> \<open>env_winInfo\<close> is the window list \<^verbatim>\<open>getWinInfoForAllWindows\<close> stores, and
    \<open>env_WindowsChanged c\<close> is the value it leaves in \<^verbatim>\<open>mGlobal.WindowsChanged\<close>
    when it finds \<open>c\<close> there;
  \<^item> \<open>env_XineramaQueryScreens\<close> is the screen array (\<open>None\<close> for \<^verbatim>\<open>NULL\<close>), whose
    length is the \<^verbatim>\<open>number\<close> the query reports;
  \<^item> \<open>env_XCreateWindow\<close> is the id of the window \<^verbatim>\<open>XCreateWindow\<close> makes;
  \<^item> \<open>env_desktop_for_window x y\<close> is the desktop \<^verbatim>\<open>xdo_get_desktop_for_window\<close>
    reports for the probe window moved to \<open>(x, y)\<close> (\<open>None\<close> for \<^verbatim>\<open>XDO_ERROR\<close>);
  \<^item> \<open>env_XQueryPointer w\<close> is the result of \<^verbatim>\<open>XQueryPointer\<close> and the button mask;
  \<^item> \<open>env_XGetInputFocus\<close> is the focused window;
  \<^item> \<open>env_XQueryTree w\<close> is the parent of \<open>w\<close> (\<open>None\<close> when the query fails);
  \<^item> \<open>env_SOMENUMBER\<close> is the macro \<^verbatim>\<open>SOMENUMBER\<close>.
\<close>

record xenv =
  env_softLock :: "int \<Rightarrow> int \<Rightarrow> int \<times> int"
  env_currentWorkspaceNumber :: int
  env_winInfo :: "WinInfo list"
  env_WindowsChanged :: "int \<Rightarrow> int"
  env_XineramaQueryScreens :: "XineramaScreenInfo list option"
  env_XCreateWindow :: Window
  env_desktop_for_window :: "int \<Rightarrow> int \<Rightarrow> int option"
  env_XQueryPointer :: "Window \<Rightarrow> bool \<times> 32 word"
  env_XGetInputFocus :: Window
  env_XQueryTree :: "Window \<Rightarrow> Window option"
  env_SOMENUMBER :: int

text \<open>
  The state: the module globals (lines 58-67), the statics \<^verbatim>\<open>wcounter\<close> of
  \<^verbatim>\<open>updateWindowsList\<close> and \<^verbatim>\<open>probeWindow\<close> of \<^verbatim>\<open>getCurrentWorkspaceData\<close>,
  the fields of \<^verbatim>\<open>mGlobal\<close> and \<^verbatim>\<open>Flags\<close> that windows.c uses, and the call log.
  \<^verbatim>\<open>mGlobal.winInfoListLength\<close> is the length of \<open>mGlobal_winInfoList\<close>. The array
  \<^verbatim>\<open>mGlobal.VisWorkSpaces\<close> is a function of the index: its capacity is declared in
  a header outside src/.
\<close>

record wstate =
  mIsWindowBeingDragged :: bool
  mWindowBeingDragged :: Window
  mActiveAppDragWindowCandidate :: Window
  mUpdateWindowsLockCounter :: int
  mActiveAppWindow :: Window
  mActiveAppXPos :: int
  mActiveAppYPos :: int
  wcounter :: int
  probeWindow :: Window
  mGlobal_hasDestopWindow :: bool
  mGlobal_hasTransparentWindow :: bool
  mGlobal_currentWorkspace :: int
  mGlobal_NVisWorkSpaces :: int
  mGlobal_VisWorkSpaces :: "nat \<Rightarrow> int"
  mGlobal_ChosenWorkSpace :: int
  mGlobal_WindowOffsetX :: int
  mGlobal_WindowOffsetY :: int
  mGlobal_SnowWin :: Window
  mGlobal_Rootwindow :: Window
  mGlobal_SnowWinX :: int
  mGlobal_SnowWinY :: int
  mGlobal_SnowWinWidth :: int
  mGlobal_SnowWinHeight :: int
  mGlobal_WindowsChanged :: int
  mGlobal_winInfoList :: "WinInfo list"
  Flags_shutdownRequested :: int
  Flags_NoKeepSnowOnWindows :: int
  Flags_AllWorkspaces :: int
  calls :: "xcall list"

subsection \<open>Collaborators\<close>

definition xcall :: "xcall \<Rightarrow> wstate \<Rightarrow> wstate" where
  "xcall c s = s\<lparr>calls := calls s @ [c]\<rparr>"

text \<open>
  Modelled from the spec: \<^verbatim>\<open>getWinInfoForAllWindows\<close> (WinInfo.c, not under src/) is
  the snapshot store's refresh, which "queries the windowing system for all currently
  visible top-level windows and atomically replaces the stored sequence", with the side
  effect that it "marks a changed flag consumed by the Reconciliation Loop". The spec
  does not say when the flag is marked, so both the list and the value left in the flag
  come from the environment.
\<close>

definition getWinInfoForAllWindows :: "xenv \<Rightarrow> wstate \<Rightarrow> wstate" where
  "getWinInfoForAllWindows e s =
     xcall Call_getWinInfoForAllWindows
       (s\<lparr>mGlobal_winInfoList := env_winInfo e,
          mGlobal_WindowsChanged := env_WindowsChanged e (mGlobal_WindowsChanged s)\<rparr>)"

text \<open>
  Modelled from the spec: \<^verbatim>\<open>getWinInfoForWindow\<close> (WinInfo.c, not under src/) is the
  snapshot store's lookup, which "returns the record or none"; the first record of the
  list with that window id.
\<close>

definition getWinInfoForWindow :: "wstate \<Rightarrow> Window \<Rightarrow> WinInfo option" where
  "getWinInfoForWindow s w = find (\<lambda>wi. wi_window wi = w) (mGlobal_winInfoList s)"

definition removeFallenSnowFromWindow :: "Window \<Rightarrow> wstate \<Rightarrow> wstate" where
  "removeFallenSnowFromWindow w s = xcall (Call_removeFallenSnowFromWindow w) s"

definition removeFallenSnowFromAllWindows :: "wstate \<Rightarrow> wstate" where
  "removeFallenSnowFromAllWindows s = xcall Call_removeFallenSnowFromAllWindows s"

definition doAllFallenSnowWinInfoUpdates :: "wstate \<Rightarrow> wstate" where
  "doAllFallenSnowWinInfoUpdates s = xcall Call_doAllFallenSnowWinInfoUpdates s"

definition unlockFallenSnowSemaphore :: "wstate \<Rightarrow> wstate" where
  "unlockFallenSnowSemaphore s = xcall Call_unlockFallenSnowSemaphore s"

text \<open>
  \<^verbatim>\<open>softLockFallenSnowBaseSemaphore(maxSoftTries, &mUpdateWindowsLockCounter)\<close>: the
  return code, and the state with the counter the call leaves behind.
\<close>

definition softLockFallenSnowBaseSemaphore :: "xenv \<Rightarrow> int \<Rightarrow> wstate \<Rightarrow> int \<times> wstate" where
  "softLockFallenSnowBaseSemaphore e maxSoftTries s =
     (fst (env_softLock e maxSoftTries (mUpdateWindowsLockCounter s)),
      xcall Call_softLockFallenSnowBaseSemaphore
        (s\<lparr>mUpdateWindowsLockCounter :=
             snd (env_softLock e maxSoftTries (mUpdateWindowsLockCounter s))\<rparr>))"

definition getCurrentWorkspaceNumber :: "xenv \<Rightarrow> wstate \<Rightarrow> int \<times> wstate" where
  "getCurrentWorkspaceNumber e s =
     (env_currentWorkspaceNumber e, xcall Call_getCurrentWorkspaceNumber s)"

subsection \<open>Drag-state and active-application helpers (lines 525-572, 779-805)\<close>

definition isWindowBeingDragged :: "wstate \<Rightarrow> bool" where
  "isWindowBeingDragged s = mIsWindowBeingDragged s"

definition setIsWindowBeingDragged :: "bool \<Rightarrow> wstate \<Rightarrow> wstate" where
  "setIsWindowBeingDragged b s = s\<lparr>mIsWindowBeingDragged := b\<rparr>"

definition getWindowBeingDragged :: "wstate \<Rightarrow> Window" where
  "getWindowBeingDragged s = mWindowBeingDragged s"

definition setWindowBeingDragged :: "Window \<Rightarrow> wstate \<Rightarrow> wstate" where
  "setWindowBeingDragged w s = s\<lparr>mWindowBeingDragged := w\<rparr>"

definition getActiveAppDragWindowCandidate :: "wstate \<Rightarrow> Window" where
  "getActiveAppDragWindowCandidate s = mActiveAppDragWindowCandidate s"

definition setActiveAppDragWindowCandidate :: "Window \<Rightarrow> wstate \<Rightarrow> wstate" where
  "setActiveAppDragWindowCandidate w s = s\<lparr>mActiveAppDragWindowCandidate := w\<rparr>"

definition clearAllDragFields :: "wstate \<Rightarrow> wstate" where
  "clearAllDragFields s =
     setActiveAppDragWindowCandidate X_None
       (setWindowBeingDragged X_None
         (setIsWindowBeingDragged False s))"

definition getActiveAppWindow :: "wstate \<Rightarrow> Window" where
  "getActiveAppWindow s = mActiveAppWindow s"

definition setActiveAppWindow :: "Window \<Rightarrow> wstate \<Rightarrow> wstate" where
  "setActiveAppWindow w s = s\<lparr>mActiveAppWindow := w\<rparr>"

definition getActiveAppXPos :: "wstate \<Rightarrow> int" where
  "getActiveAppXPos s = mActiveAppXPos s"

definition setActiveAppXPos :: "int \<Rightarrow> wstate \<Rightarrow> wstate" where
  "setActiveAppXPos xPos s = s\<lparr>mActiveAppXPos := xPos\<rparr>"

definition getActiveAppYPos :: "wstate \<Rightarrow> int" where
  "getActiveAppYPos s = mActiveAppYPos s"

definition setActiveAppYPos :: "int \<Rightarrow> wstate \<Rightarrow> wstate" where
  "setActiveAppYPos yPos s = s\<lparr>mActiveAppYPos := yPos\<rparr>"

definition clearAllActiveAppFields :: "wstate \<Rightarrow> wstate" where
  "clearAllActiveAppFields s =
     clearAllDragFields
       (setActiveAppYPos mINVALID_POSITION
         (setActiveAppXPos mINVALID_POSITION
           (setActiveAppWindow X_None s)))"

subsection \<open>Event handlers (lines 586-751)\<close>

definition onAppWindowChange :: "Window \<Rightarrow> wstate \<Rightarrow> wstate" where
  "onAppWindowChange window s =
     (let s1 = clearAllActiveAppFields s;
          s2 = setActiveAppWindow window s1
      in case getWinInfoForWindow s2 (getActiveAppWindow s2) of
           Some activeAppWinInfo \<Rightarrow>
             setActiveAppYPos (wi_y activeAppWinInfo)
               (setActiveAppXPos (wi_x activeAppWinInfo) s2)
         | None \<Rightarrow> s2)"

definition onWindowCreated :: "xenv \<Rightarrow> XCreateWindowEvent \<Rightarrow> wstate \<Rightarrow> wstate" where
  "onWindowCreated e event s =
     (let s1 = getWinInfoForAllWindows e s
      in if xcreatewindow_send_event event \<noteq> 0 then s1
         else if xcreatewindow_parent event \<noteq> mGlobal_Rootwindow s1 then s1
         else if xcreatewindow_x event \<noteq> 0 then s1
         else if xcreatewindow_y event \<noteq> 0 then s1
         else if xcreatewindow_width event \<noteq> mGlobal_SnowWinWidth s1 then s1
         else if xcreatewindow_height event \<noteq> mGlobal_SnowWinHeight s1 then s1
         else if xcreatewindow_border_width event \<noteq> 0 then s1
         else if xcreatewindow_override_redirect event \<noteq> 0 then s1
         else setActiveAppDragWindowCandidate (xcreatewindow_window event) s1)"

definition getFocusedX11Window :: "xenv \<Rightarrow> Window" where
  "getFocusedX11Window e = env_XGetInputFocus e"

text \<open>\<^verbatim>\<open>POINTER_CLICKDOWN\<close> is 256, the mask of button 1.\<close>

definition isMouseClickedAndHeldInWindow :: "xenv \<Rightarrow> Window \<Rightarrow> bool" where
  "isMouseClickedAndHeldInWindow e window =
     (let (foundPointerState, pointerState) = env_XQueryPointer e window
      in foundPointerState \<and> (pointerState AND 256) \<noteq> 0)"

text \<open>
  \<^verbatim>\<open>getDragWindowOf\<close> walks up the window tree in a \<^verbatim>\<open>while (true)\<close> until the
  node is in the window list or \<^verbatim>\<open>XQueryTree\<close> fails. Nothing in the code bounds
  the walk, so the model is a partial function: \<open>None\<close> is "does not return".
\<close>

partial_function (option) getDragWindowOf :: "xenv \<Rightarrow> WinInfo list \<Rightarrow> Window \<Rightarrow> Window option" where
  "getDragWindowOf e winInfoList windowNode =
     (if windowNode \<in> set (map wi_window winInfoList) then Some windowNode
      else case env_XQueryTree e windowNode of
             None \<Rightarrow> Some X_None
           | Some parent \<Rightarrow> getDragWindowOf e winInfoList parent)"

text \<open>
  The second test of \<^verbatim>\<open>onWindowMapped\<close> (lines 682-710), for KDE Plasma: the tail of
  the handler that runs when the click-and-hold test did not return.
\<close>

definition onWindowMapped_plasma :: "XMapEvent \<Rightarrow> wstate \<Rightarrow> wstate" where
  "onWindowMapped_plasma event s =
     (let m0 = True;
          m1 = (if xmap_send_event event \<noteq> 0 then False else m0);
          m2 = (if xmap_window event \<noteq> getActiveAppDragWindowCandidate s then False else m1);
          m3 = (if xmap_event event \<noteq> mGlobal_Rootwindow s then False else m2);
          isActiveAppMoving = (if xmap_override_redirect event \<noteq> 0 then False else m3)
      in if isActiveAppMoving then
           (let s1 = setIsWindowBeingDragged (getActiveAppWindow s \<noteq> X_None) s;
                s2 = setWindowBeingDragged (getActiveAppWindow s1) s1
            in if isWindowBeingDragged s2 then removeFallenSnowFromAllWindows s2 else s2)
         else s)"

definition onWindowMapped :: "xenv \<Rightarrow> XMapEvent \<Rightarrow> wstate \<Rightarrow> wstate option" where
  "onWindowMapped e event s =
     (let s1 = getWinInfoForAllWindows e s
      in if \<not> isWindowBeingDragged s1
            \<and> isMouseClickedAndHeldInWindow e (xmap_window event)
            \<and> xmap_window event \<noteq> X_None
            \<and> getFocusedX11Window e \<noteq> X_None
         then
           (case getDragWindowOf e (mGlobal_winInfoList s1) (getFocusedX11Window e) of
              None \<Rightarrow> None
            | Some dragWindow \<Rightarrow>
                if dragWindow \<noteq> X_None then
                  (let s2 = setIsWindowBeingDragged True s1;
                       s3 = setWindowBeingDragged dragWindow s2
                   in Some (removeFallenSnowFromWindow (getWindowBeingDragged s3) s3))
                else Some (onWindowMapped_plasma event s1))
         else Some (onWindowMapped_plasma event s1))"

definition onWindowUnmapped :: "xenv \<Rightarrow> wstate \<Rightarrow> wstate" where
  "onWindowUnmapped e s =
     (let s1 = getWinInfoForAllWindows e s
      in if isWindowBeingDragged s1 then clearAllDragFields s1 else s1)"

definition onWindowDestroyed :: "xenv \<Rightarrow> wstate \<Rightarrow> wstate" where
  "onWindowDestroyed e s =
     (let s1 = getWinInfoForAllWindows e s
      in if isWindowBeingDragged s1 then clearAllDragFields s1 else s1)"

subsection \<open>Workspaces and screens (lines 91-270)\<close>

definition WorkspaceActive :: "wstate \<Rightarrow> int" where
  "WorkspaceActive s =
     (if Flags_AllWorkspaces s \<noteq> 0 then 1
      else if mGlobal_ChosenWorkSpace s
                \<in> set (map (mGlobal_VisWorkSpaces s) [0 ..< nat (mGlobal_NVisWorkSpaces s)])
           then 1
      else 0)"

text \<open>
  The loop of \<^verbatim>\<open>getCurrentWorkspaceData\<close> (lines 186-217) over the screens from
  index \<open>i\<close> on, with the loop variable \<^verbatim>\<open>prev\<close>. The screen's fields are
  \<^verbatim>\<open>short\<close>, so the centre is computed without overflow; C's division truncates.
  \<^verbatim>\<open>prev = desktop\<close> stores a \<^verbatim>\<open>long\<close> in an \<^verbatim>\<open>int\<close>.
\<close>

fun probeScreens :: "xenv \<Rightarrow> XineramaScreenInfo list \<Rightarrow> nat \<Rightarrow> int \<Rightarrow> wstate \<Rightarrow> wstate" where
  "probeScreens e [] i prev s = s"
| "probeScreens e (info # infos) i prev s =
     (let xm = xi_x_org info + xi_width info sdiv 2;
          ym = xi_y_org info + xi_height info sdiv 2;
          s1 = xcall (Call_xdo_move_window (probeWindow s) xm ym) s;
          s2 = xcall (Call_xdo_wait_for_window_map_state (probeWindow s1)) s1;
          desktop = (case env_desktop_for_window e xm ym of
                       None \<Rightarrow> mGlobal_currentWorkspace s2
                     | Some d \<Rightarrow> d);
          s3 = s2\<lparr>mGlobal_VisWorkSpaces := (mGlobal_VisWorkSpaces s2)(i := desktop)\<rparr>
      in if desktop \<noteq> prev then
           probeScreens e infos (Suc i) (int32 desktop)
             (if prev \<ge> 0 then s3\<lparr>mGlobal_WindowOffsetX := 0, mGlobal_WindowOffsetY := 0\<rparr>
              else s3)
         else probeScreens e infos (Suc i) prev s3)"

text \<open>
  The two early exits store the same thing (lines 138-139 and 161-162).
\<close>

definition onlyCurrentWorkspace :: "wstate \<Rightarrow> wstate" where
  "onlyCurrentWorkspace s =
     (let s1 = s\<lparr>mGlobal_NVisWorkSpaces := 1\<rparr>
      in s1\<lparr>mGlobal_VisWorkSpaces :=
              (mGlobal_VisWorkSpaces s1)(0 := mGlobal_currentWorkspace s1)\<rparr>)"

text \<open>
  \<^verbatim>\<open>getCurrentWorkspaceData\<close>. The static attribute structures set up on the first
  call (lines 148-155) are only handed to Xlib; of that branch the model keeps the one
  request it makes, \<^verbatim>\<open>XInternAtom\<close>.
\<close>

definition getCurrentWorkspaceData :: "xenv \<Rightarrow> wstate \<Rightarrow> wstate" where
  "getCurrentWorkspaceData e s =
     (if \<not> mGlobal_hasDestopWindow s then onlyCurrentWorkspace s
      else
        (let s1 = (if probeWindow s \<noteq> 0 then xcall (Call_XDestroyWindow (probeWindow s)) s
                   else xcall (Call_XInternAtom ''_MOTIF_WM_HINTS'') s)
         in case env_XineramaQueryScreens e of
              None \<Rightarrow> onlyCurrentWorkspace s1
            | Some info \<Rightarrow>
                if int (length info) = 1 then onlyCurrentWorkspace s1
                else
                  (let s2 = xcall (Call_XCreateWindow (env_XCreateWindow e))
                              (s1\<lparr>probeWindow := env_XCreateWindow e\<rparr>);
                       s3 = xcall (Call_XSetClassHint (probeWindow s2)) s2;
                       s4 = xcall (Call_XSetWMNormalHints (probeWindow s3)) s3;
                       s5 = xcall (Call_XChangeProperty (probeWindow s4)) s4;
                       s6 = xcall (Call_xdo_map_window (probeWindow s5)) s5;
                       s7 = s6\<lparr>mGlobal_NVisWorkSpaces := int (length info)\<rparr>;
                       s8 = probeScreens e info 0 (- env_SOMENUMBER e) s7
                   in xcall (Call_xdo_unmap_window (probeWindow s8)) s8)))"

text \<open>
  \<^verbatim>\<open>getXineramaScreenInfo\<close>. The four result pointers are a record, taken and
  returned; the C function's return value comes with it. A read of
  \<^verbatim>\<open>infoArray[i]\<close> with \<open>i\<close> outside the array is a fault of its own, carrying the
  index and the array's length.
\<close>

datatype fault = ReadOutOfBounds int int

record screenResult =
  resultScreenPosX :: int
  resultScreenPosY :: int
  resultScreenWidth :: int
  resultScreenHeigth :: int

definition largestScreen :: "XineramaScreenInfo list \<Rightarrow> screenResult \<Rightarrow> screenResult" where
  "largestScreen infoArray r =
     fold (\<lambda>info r.
            (let r1 = (if xi_width info > resultScreenWidth r
                       then r\<lparr>resultScreenWidth := xi_width info\<rparr> else r)
             in if xi_height info > resultScreenHeigth r1
                then r1\<lparr>resultScreenHeigth := xi_height info\<rparr> else r1))
       infoArray
       (r\<lparr>resultScreenPosX := 0, resultScreenPosY := 0,
          resultScreenWidth := 0, resultScreenHeigth := 0\<rparr>)"

definition getXineramaScreenInfo :: "xenv \<Rightarrow> int \<Rightarrow> screenResult \<Rightarrow> fault + int \<times> screenResult" where
  "getXineramaScreenInfo e requestScreen r =
     (case env_XineramaQueryScreens e of
        None \<Rightarrow> Inr (0, r)
      | Some infoArray \<Rightarrow>
          (let infoArrayLength = int (length infoArray);
               boundedRequestScreeen =
                 (if requestScreen \<le> infoArrayLength then requestScreen else infoArrayLength)
           in if boundedRequestScreeen \<ge> 0 then
                (if boundedRequestScreeen < infoArrayLength then
                   (let info = infoArray ! nat boundedRequestScreeen
                    in Inr (infoArrayLength,
                            r\<lparr>resultScreenWidth := xi_width info,
                              resultScreenHeigth := xi_height info,
                              resultScreenPosX := xi_x_org info,
                              resultScreenPosY := xi_y_org info\<rparr>))
                 else Inl (ReadOutOfBounds boundedRequestScreeen infoArrayLength))
              else Inr (infoArrayLength, largestScreen infoArray r)))"

subsection \<open>The periodic update (lines 403-479)\<close>

text \<open>
  Both fatal conditions of \<^verbatim>\<open>updateWindowsList\<close> do the same three things in the
  same order: \<^verbatim>\<open>printf\<close> the message after "plasmasnow: " (the colour codes
  around it are left out), \<^verbatim>\<open>displayMessageBox\<close> with the title "plasmasnow" and
  the message (the geometry of the box is left out), and set
  \<^verbatim>\<open>Flags.shutdownRequested\<close>.
\<close>

definition fatal :: "string \<Rightarrow> wstate \<Rightarrow> wstate" where
  "fatal msg s =
     (xcall (Call_displayMessageBox ''plasmasnow'' msg)
        (xcall (Call_printf (''plasmasnow: '' @ msg)) s))\<lparr>Flags_shutdownRequested := 1\<rparr>"

text \<open>Lines 454-478: the window list is rebuilt, shifted and checked.\<close>

definition updateWindowsList_rebuild :: "xenv \<Rightarrow> wstate \<Rightarrow> wstate" where
  "updateWindowsList_rebuild e s =
     (let s1 = getWinInfoForAllWindows e s;
          s2 = s1\<lparr>mGlobal_winInfoList :=
                 map (\<lambda>wi. wi\<lparr>wi_x := int32 (wi_x wi
                                   + int32 (mGlobal_WindowOffsetX s1 - mGlobal_SnowWinX s1)),
                               wi_y := int32 (wi_y wi
                                   + int32 (mGlobal_WindowOffsetY s1 - mGlobal_SnowWinY s1))\<rparr>)
                   (mGlobal_winInfoList s1)\<rparr>;
          s3 = (if mGlobal_SnowWin s2 \<noteq> mGlobal_Rootwindow s2
                   \<and> getWinInfoForWindow s2 (mGlobal_SnowWin s2) = None
                   \<and> \<not> mGlobal_hasTransparentWindow s2
                then fatal ''SnowWindow has been lost - FATAL.'' s2
                else s2)
      in unlockFallenSnowSemaphore (doAllFallenSnowWinInfoUpdates s3))"

text \<open>Lines 429-478: what a tick does once it is past the "changed" test.\<close>

definition updateWindowsList_changed :: "xenv \<Rightarrow> wstate \<Rightarrow> bool \<times> wstate" where
  "updateWindowsList_changed e s =
     (let (WORKSPACE, s1) = getCurrentWorkspaceNumber e s
      in if WORKSPACE < 0 then
           (True, fatal ''Virtual workspace has been lost - FATAL.''
                    (unlockFallenSnowSemaphore s1))
         else
           (let s2 = (if mGlobal_currentWorkspace s1 \<noteq> WORKSPACE
                      then getCurrentWorkspaceData e (s1\<lparr>mGlobal_currentWorkspace := WORKSPACE\<rparr>)
                      else s1)
            in if isWindowBeingDragged s2 then
                 (True, unlockFallenSnowSemaphore (doAllFallenSnowWinInfoUpdates s2))
               else (True, updateWindowsList_rebuild e s2)))"

definition updateWindowsList :: "xenv \<Rightarrow> wstate \<Rightarrow> bool \<times> wstate" where
  "updateWindowsList e s =
     (if Flags_shutdownRequested s \<noteq> 0 then (False, s)
      else if Flags_NoKeepSnowOnWindows s \<noteq> 0 then (True, s)
      else
        (let (rc, s1) = softLockFallenSnowBaseSemaphore e 3 s
         in if rc \<noteq> 0 then (True, s1)
            else
              (let s2 = s1\<lparr>wcounter := int32 (wcounter s1 + 1)\<rparr>;
                   s3 = (if wcounter s2 > 9
                         then s2\<lparr>mGlobal_WindowsChanged := 1, wcounter := 0\<rparr>
                         else s2)
               in if mGlobal_WindowsChanged s3 = 0 then (True, unlockFallenSnowSemaphore s3)
                  else updateWindowsList_changed e (s3\<lparr>mGlobal_WindowsChanged := 0\<rparr>))))"

subsection \<open>Runs of ticks and the predicates of the claims\<close>

text \<open>
  The drag state is idle when nothing is recorded as dragged and no candidate is kept.
\<close>

definition dragIdle :: "wstate \<Rightarrow> bool" where
  "dragIdle s =
     (\<not> isWindowBeingDragged s \<and> getWindowBeingDragged s = X_None
      \<and> getActiveAppDragWindowCandidate s = X_None)"

definition dragInvariant :: "wstate \<Rightarrow> bool" where
  "dragInvariant s = (isWindowBeingDragged s \<longrightarrow> getWindowBeingDragged s \<noteq> X_None)"

text \<open>
  Consecutive ticks of the main loop: the \<open>k\<close>-th tick runs in the state the one
  before left, with the answers \<open>es ! k\<close>; the results are the values returned to the
  scheduler.
\<close>

fun runTicks :: "xenv list \<Rightarrow> wstate \<Rightarrow> bool list \<times> wstate" where
  "runTicks [] s = ([], s)"
| "runTicks (e # es) s =
     (let (r, s1) = updateWindowsList e s;
          (rs, s2) = runTicks es s1
      in (r # rs, s2))"

text \<open>A run in which every tick finds the lock taken.\<close>

fun contended :: "xenv list \<Rightarrow> wstate \<Rightarrow> bool" where
  "contended [] s = True"
| "contended (e # es) s =
     (fst (env_softLock e 3 (mUpdateWindowsLockCounter s)) \<noteq> 0
      \<and> contended es (snd (updateWindowsList e s)))"






subsection \<open>Concrete inputs\<close>

text \<open>
  A desktop with root window 1 and a 1920x1080 snow window 2; application window 5 is
  active, window 9 was recorded as drag-window candidate, nothing is dragged.
\<close>

definition example_state :: wstate where
  "example_state =
     \<lparr>mIsWindowBeingDragged = False, mWindowBeingDragged = 0,
      mActiveAppDragWindowCandidate = 9, mUpdateWindowsLockCounter = 0,
      mActiveAppWindow = 5, mActiveAppXPos = 10, mActiveAppYPos = 20,
      wcounter = 0, probeWindow = 0,
      mGlobal_hasDestopWindow = True, mGlobal_hasTransparentWindow = False,
      mGlobal_currentWorkspace = 0, mGlobal_NVisWorkSpaces = 1,
      mGlobal_VisWorkSpaces = (\<lambda>i. 0), mGlobal_ChosenWorkSpace = 0,
      mGlobal_WindowOffsetX = 0, mGlobal_WindowOffsetY = 0,
      mGlobal_SnowWin = 2, mGlobal_Rootwindow = 1,
      mGlobal_SnowWinX = 0, mGlobal_SnowWinY = 0,
      mGlobal_SnowWinWidth = 1920, mGlobal_SnowWinHeight = 1080,
      mGlobal_WindowsChanged = 0, mGlobal_winInfoList = [],
      Flags_shutdownRequested = 0, Flags_NoKeepSnowOnWindows = 0, Flags_AllWorkspaces = 0,
      calls = []\<rparr>"

definition example_screen :: XineramaScreenInfo where
  "example_screen =
     \<lparr>xi_screen_number = 0, xi_x_org = 0, xi_y_org = 0, xi_width = 1920, xi_height = 1080\<rparr>"

definition example_screen2 :: XineramaScreenInfo where
  "example_screen2 =
     \<lparr>xi_screen_number = 1, xi_x_org = 1920, xi_y_org = 0, xi_width = 1280, xi_height = 1024\<rparr>"

text \<open>
  One monitor, the lock free, three windows on screen, window 6 focused, no pointer
  button held, and a window tree in which no window has a parent to query.
\<close>

definition example_env :: xenv where
  "example_env =
     \<lparr>env_softLock = (\<lambda>maxSoftTries tryCount. (0, 0)),
      env_currentWorkspaceNumber = 0,
      env_winInfo = [\<lparr>wi_window = 2, wi_x = 0, wi_y = 0\<rparr>,
                     \<lparr>wi_window = 5, wi_x = 10, wi_y = 20\<rparr>,
                     \<lparr>wi_window = 6, wi_x = 300, wi_y = 40\<rparr>],
      env_WindowsChanged = (\<lambda>c. c),
      env_XineramaQueryScreens = Some [example_screen],
      env_XCreateWindow = 77,
      env_desktop_for_window = (\<lambda>x y. Some 0),
      env_XQueryPointer = (\<lambda>w. (True, 0)),
      env_XGetInputFocus = 6,
      env_XQueryTree = (\<lambda>w. None),
      env_SOMENUMBER = 42\<rparr>"

text \<open>The same, with button 1 held down.\<close>

definition example_click_env :: xenv where
  "example_click_env = example_env\<lparr>env_XQueryPointer := (\<lambda>w. (True, 256))\<rparr>"

text \<open>The same, with two monitors.\<close>

definition example_two_monitor_env :: xenv where
  "example_two_monitor_env =
     example_env\<lparr>env_XineramaQueryScreens := Some [example_screen, example_screen2]\<rparr>"

text \<open>The same, with the lock taken by someone else.\<close>

definition example_locked_env :: xenv where
  "example_locked_env =
     example_env\<lparr>env_softLock := (\<lambda>maxSoftTries tryCount. (1, tryCount + 1))\<rparr>"

text \<open>The same, with the workspace query failing.\<close>

definition example_lost_env :: xenv where
  "example_lost_env = example_env\<lparr>env_currentWorkspaceNumber := - 1\<rparr>"

text \<open>The map event of the candidate window 9, reported on the root window.\<close>

definition example_map_event :: XMapEvent where
  "example_map_event =
     \<lparr>xmap_send_event = 0, xmap_event = 1, xmap_window = 9, xmap_override_redirect = 0\<rparr>"


text \<open>The same desktop while window 5 is being dragged.\<close>

definition example_dragging_state :: wstate where
  "example_dragging_state =
     example_state\<lparr>mIsWindowBeingDragged := True, mWindowBeingDragged := 5\<rparr>"


section \<open>Properties\<close>

lemmas drag_defs = isWindowBeingDragged_def setIsWindowBeingDragged_def
  getWindowBeingDragged_def setWindowBeingDragged_def
  getActiveAppDragWindowCandidate_def setActiveAppDragWindowCandidate_def
  clearAllDragFields_def getActiveAppWindow_def setActiveAppWindow_def
  getActiveAppXPos_def setActiveAppXPos_def getActiveAppYPos_def setActiveAppYPos_def
  clearAllActiveAppFields_def

lemmas collab_defs = xcall_def getWinInfoForAllWindows_def getWinInfoForWindow_def
  removeFallenSnowFromWindow_def removeFallenSnowFromAllWindows_def
  doAllFallenSnowWinInfoUpdates_def unlockFallenSnowSemaphore_def
  softLockFallenSnowBaseSemaphore_def getCurrentWorkspaceNumber_def

lemmas example_defs = example_state_def example_env_def example_screen_def
  example_screen2_def example_click_env_def example_two_monitor_env_def
  example_locked_env_def example_lost_env_def example_map_event_def
  example_dragging_state_def

subsection \<open>Drag detection on a mapped window\<close>

text \<open>
  Claim C1, as stated, for every mapped-window event with the keyboard-drag signature
  and an active application window: the drag state becomes "dragging the active
  application window" and \<^verbatim>\<open>removeFallenSnowFromAllWindows\<close> is called once. It fails
  when the click-and-hold test of the same handler takes the event first (lines
  662-680 end in \<^verbatim>\<open>return\<close>): with button 1 held and window 6 focused, the event
  of the candidate 9 makes window 6 the dragged one, not the active window 5, and only
  window 6 is cleared.
\<close>

theorem onWindowMapped_click_hold_wins:
  "xmap_send_event example_map_event = 0
   \<and> xmap_window example_map_event = getActiveAppDragWindowCandidate example_state
   \<and> xmap_event example_map_event = mGlobal_Rootwindow example_state
   \<and> xmap_override_redirect example_map_event = 0
   \<and> getActiveAppWindow example_state = 5
   \<and> getActiveAppWindow example_state \<noteq> X_None
   \<and> map_option getWindowBeingDragged
         (onWindowMapped example_click_env example_map_event example_state) = Some 6
   \<and> map_option calls
         (onWindowMapped example_click_env example_map_event example_state)
       = Some [Call_getWinInfoForAllWindows, Call_removeFallenSnowFromWindow 6]"
  by (simp add: onWindowMapped_def example_defs isMouseClickedAndHeldInWindow_def
      getFocusedX11Window_def getDragWindowOf.simps X_None_def drag_defs collab_defs Let_def)

text \<open>
  Claim C1, amended: when the event has the keyboard-drag signature, the active
  application window is not \<^verbatim>\<open>None\<close>, and the click-and-hold test does not take the
  event (a drag is already recorded, or no button is held in the mapped window, or the
  mapped window or the focused window is \<^verbatim>\<open>None\<close>, or no ancestor of the focused
  window is in the window list), the handler returns, the active application window is
  recorded as being dragged, and the handler's calls are the refresh of the window list
  followed by one \<^verbatim>\<open>removeFallenSnowFromAllWindows\<close>; nothing else changes but what
  the refresh stores.
\<close>

theorem onWindowMapped_keyboard_drag:
  assumes "xmap_send_event event = 0"
    and "xmap_window event = getActiveAppDragWindowCandidate s"
    and "xmap_event event = mGlobal_Rootwindow s"
    and "xmap_override_redirect event = 0"
    and "getActiveAppWindow s \<noteq> X_None"
    and "isWindowBeingDragged s
         \<or> \<not> isMouseClickedAndHeldInWindow e (xmap_window event)
         \<or> xmap_window event = X_None
         \<or> getFocusedX11Window e = X_None
         \<or> getDragWindowOf e (env_winInfo e) (getFocusedX11Window e) = Some X_None"
  shows "onWindowMapped e event s
     = Some (s\<lparr>mIsWindowBeingDragged := True,
               mWindowBeingDragged := getActiveAppWindow s,
               mGlobal_winInfoList := env_winInfo e,
               mGlobal_WindowsChanged := env_WindowsChanged e (mGlobal_WindowsChanged s),
               calls := calls s @ [Call_getWinInfoForAllWindows,
                                   Call_removeFallenSnowFromAllWindows]\<rparr>)"
proof -
  let ?s1 = "getWinInfoForAllWindows e s"
  have plasma: "onWindowMapped_plasma event ?s1
     = s\<lparr>mIsWindowBeingDragged := True,
          mWindowBeingDragged := getActiveAppWindow s,
          mGlobal_winInfoList := env_winInfo e,
          mGlobal_WindowsChanged := env_WindowsChanged e (mGlobal_WindowsChanged s),
          calls := calls s @ [Call_getWinInfoForAllWindows,
                              Call_removeFallenSnowFromAllWindows]\<rparr>"
    using assms(1-5)
    by (simp add: onWindowMapped_plasma_def drag_defs collab_defs Let_def)
  show ?thesis
    using assms(6) plasma
    by (auto simp add: onWindowMapped_def Let_def drag_defs collab_defs)
qed

text \<open>
  The amended claim at a concrete input: no button is held, so the event of the
  candidate 9 records the active window 5 and clears every window once.
\<close>

theorem onWindowMapped_keyboard_drag_witness:
  "xmap_send_event example_map_event = 0
   \<and> xmap_window example_map_event = getActiveAppDragWindowCandidate example_state
   \<and> xmap_event example_map_event = mGlobal_Rootwindow example_state
   \<and> xmap_override_redirect example_map_event = 0
   \<and> getActiveAppWindow example_state \<noteq> X_None
   \<and> \<not> isMouseClickedAndHeldInWindow example_env (xmap_window example_map_event)
   \<and> map_option isWindowBeingDragged
         (onWindowMapped example_env example_map_event example_state) = Some True
   \<and> map_option getWindowBeingDragged
         (onWindowMapped example_env example_map_event example_state) = Some 5
   \<and> map_option calls
         (onWindowMapped example_env example_map_event example_state)
       = Some [Call_getWinInfoForAllWindows, Call_removeFallenSnowFromAllWindows]"
proof -
  have h: "xmap_send_event example_map_event = 0"
    "xmap_window example_map_event = getActiveAppDragWindowCandidate example_state"
    "xmap_event example_map_event = mGlobal_Rootwindow example_state"
    "xmap_override_redirect example_map_event = 0"
    "getActiveAppWindow example_state \<noteq> X_None"
    "\<not> isMouseClickedAndHeldInWindow example_env (xmap_window example_map_event)"
    by (simp_all add: example_defs drag_defs X_None_def isMouseClickedAndHeldInWindow_def)
  have "onWindowMapped example_env example_map_event example_state
     = Some (example_state\<lparr>mIsWindowBeingDragged := True,
               mWindowBeingDragged := getActiveAppWindow example_state,
               mGlobal_winInfoList := env_winInfo example_env,
               mGlobal_WindowsChanged :=
                 env_WindowsChanged example_env (mGlobal_WindowsChanged example_state),
               calls := calls example_state @ [Call_getWinInfoForAllWindows,
                                   Call_removeFallenSnowFromAllWindows]\<rparr>)"
    using h by (intro onWindowMapped_keyboard_drag) simp_all
  then show ?thesis
    using h by (simp add: drag_defs) (simp add: example_defs)
qed

subsection \<open>The drag-window candidate\<close>

text \<open>
  Claim C2: \<^verbatim>\<open>onWindowCreated\<close> stores the created window as the drag-window
  candidate exactly when \<^verbatim>\<open>send_event\<close> is 0, the parent is the root window, x and y
  are 0, width and height are those of the snow window, and \<^verbatim>\<open>border_width\<close> and
  \<^verbatim>\<open>override_redirect\<close> are 0; with any of these fields different the stored
  candidate is the one from before.
\<close>

theorem onWindowCreated_candidate:
  "mActiveAppDragWindowCandidate (onWindowCreated e event s) =
     (if xcreatewindow_send_event event = 0
         \<and> xcreatewindow_parent event = mGlobal_Rootwindow s
         \<and> xcreatewindow_x event = 0
         \<and> xcreatewindow_y event = 0
         \<and> xcreatewindow_width event = mGlobal_SnowWinWidth s
         \<and> xcreatewindow_height event = mGlobal_SnowWinHeight s
         \<and> xcreatewindow_border_width event = 0
         \<and> xcreatewindow_override_redirect event = 0
      then xcreatewindow_window event
      else mActiveAppDragWindowCandidate s)"
  by (simp add: onWindowCreated_def drag_defs collab_defs Let_def)

subsection \<open>Resetting the drag state\<close>

text \<open>
  Claim C4: in whatever state the events before have left the module, an unmapped or
  destroyed window while a drag is recorded leaves the drag state idle (not dragging,
  no dragged window, no candidate), and an unmapped or destroyed window in the idle
  state leaves it idle. The statement is about every state, so also about every state
  a sequence of create, map, unmap and destroy events leads to.
\<close>

theorem unmap_destroy_reset:
  "(isWindowBeingDragged s \<longrightarrow>
      dragIdle (onWindowUnmapped e s) \<and> dragIdle (onWindowDestroyed e s))
   \<and> (dragIdle s \<longrightarrow>
      dragIdle (onWindowUnmapped e s) \<and> dragIdle (onWindowDestroyed e s))"
  by (simp add: dragIdle_def onWindowUnmapped_def onWindowDestroyed_def drag_defs
      collab_defs Let_def)

text \<open>
  At a concrete input: the keyboard drag of window 5 is first recorded by the map event
  of the candidate, then an unmap (or a destroy) resets it, and a second one keeps it
  reset.
\<close>

theorem unmap_destroy_reset_witness:
  "isWindowBeingDragged (the (onWindowMapped example_env example_map_event example_state))
   \<and> dragIdle (onWindowUnmapped example_env
        (the (onWindowMapped example_env example_map_event example_state)))
   \<and> dragIdle (onWindowDestroyed example_env
        (the (onWindowMapped example_env example_map_event example_state)))
   \<and> dragIdle (onWindowDestroyed example_env (onWindowUnmapped example_env
        (the (onWindowMapped example_env example_map_event example_state))))"
proof -
  define s where "s = the (onWindowMapped example_env example_map_event example_state)"
  have dragging: "isWindowBeingDragged s"
    by (simp add: s_def onWindowMapped_def onWindowMapped_plasma_def example_defs
        isMouseClickedAndHeldInWindow_def drag_defs collab_defs X_None_def Let_def)
  have first: "dragIdle (onWindowUnmapped example_env s)"
    "dragIdle (onWindowDestroyed example_env s)"
    using dragging unmap_destroy_reset [of s example_env] by simp_all
  then have "dragIdle (onWindowDestroyed example_env (onWindowUnmapped example_env s))"
    using unmap_destroy_reset [of "onWindowUnmapped example_env s" example_env] by simp
  then show ?thesis
    using dragging first by (simp add: s_def)
qed

subsection \<open>A change of the active application\<close>

text \<open>
  Claim C8: \<^verbatim>\<open>onAppWindowChange\<close> first clears: after
  \<^verbatim>\<open>clearAllActiveAppFields\<close> nothing is dragged, the dragged window, the candidate
  and the active window are \<^verbatim>\<open>None\<close>, and both positions are
  \<^verbatim>\<open>mINVALID_POSITION\<close>, which is -1. After the whole handler the drag state is
  still clear, the active window is the new one, and the positions are those of its
  record in the window list, or \<^verbatim>\<open>mINVALID_POSITION\<close> when it has none. The
  handler's result is the one it gives on the cleared state: nothing of the old active
  application or drag state survives.
\<close>

theorem onAppWindowChange_records:
  "(let c = clearAllActiveAppFields s; s' = onAppWindowChange window s
    in \<not> isWindowBeingDragged c \<and> getWindowBeingDragged c = X_None
       \<and> getActiveAppDragWindowCandidate c = X_None
       \<and> getActiveAppWindow c = X_None
       \<and> getActiveAppXPos c = mINVALID_POSITION \<and> getActiveAppYPos c = mINVALID_POSITION
       \<and> mINVALID_POSITION = - 1
       \<and> \<not> isWindowBeingDragged s' \<and> getWindowBeingDragged s' = X_None
       \<and> getActiveAppDragWindowCandidate s' = X_None
       \<and> getActiveAppWindow s' = window
       \<and> getActiveAppXPos s' =
           (case getWinInfoForWindow s window of
              Some wi \<Rightarrow> wi_x wi | None \<Rightarrow> mINVALID_POSITION)
       \<and> getActiveAppYPos s' =
           (case getWinInfoForWindow s window of
              Some wi \<Rightarrow> wi_y wi | None \<Rightarrow> mINVALID_POSITION)
       \<and> s' = onAppWindowChange window c)"
  by (simp add: onAppWindowChange_def drag_defs collab_defs mINVALID_POSITION_def Let_def
      split: option.splits)

subsection \<open>The invariant of the drag state\<close>

lemma onWindowMapped_plasma_invariant:
  "dragInvariant s \<Longrightarrow> dragInvariant (onWindowMapped_plasma event s)"
  by (simp add: dragInvariant_def onWindowMapped_plasma_def drag_defs collab_defs Let_def)

text \<open>
  Claim C9: if a dragged window is recorded whenever \<^verbatim>\<open>isWindowBeingDragged\<close> holds,
  the same is true after each handler (\<^verbatim>\<open>onWindowMapped\<close> when it returns,
  \<^verbatim>\<open>onWindowUnmapped\<close>, \<^verbatim>\<open>onWindowDestroyed\<close>, \<^verbatim>\<open>onAppWindowChange\<close>,
  \<^verbatim>\<open>onWindowCreated\<close>) and after \<^verbatim>\<open>clearAllDragFields\<close>; and after
  \<^verbatim>\<open>clearAllDragFields\<close> the dragged window and the candidate are \<^verbatim>\<open>None\<close>.
\<close>

theorem drag_invariant_preserved:
  "dragInvariant s \<Longrightarrow>
     (case onWindowMapped e event s of None \<Rightarrow> True | Some s' \<Rightarrow> dragInvariant s')
     \<and> dragInvariant (onWindowUnmapped e s)
     \<and> dragInvariant (onWindowDestroyed e s)
     \<and> dragInvariant (onAppWindowChange window s)
     \<and> dragInvariant (onWindowCreated e created s)
     \<and> dragInvariant (clearAllDragFields s)
     \<and> getWindowBeingDragged (clearAllDragFields s) = X_None
     \<and> getActiveAppDragWindowCandidate (clearAllDragFields s) = X_None"
proof -
  assume inv: "dragInvariant s"
  have refresh: "dragInvariant (getWinInfoForAllWindows e s)"
    using inv by (simp add: dragInvariant_def drag_defs collab_defs)
  have mapped: "case onWindowMapped e event s of None \<Rightarrow> True | Some s' \<Rightarrow> dragInvariant s'"
    using onWindowMapped_plasma_invariant [OF refresh]
    by (auto simp add: onWindowMapped_def Let_def split: option.splits)
      (simp add: dragInvariant_def drag_defs collab_defs)
  have rest: "dragInvariant (onWindowUnmapped e s)"
    "dragInvariant (onWindowDestroyed e s)"
    "dragInvariant (onAppWindowChange window s)"
    "dragInvariant (onWindowCreated e created s)"
    "dragInvariant (clearAllDragFields s)"
    using inv
    by (simp_all add: dragInvariant_def onWindowUnmapped_def onWindowDestroyed_def
        onAppWindowChange_def onWindowCreated_def drag_defs collab_defs Let_def
        split: option.splits)
  show ?thesis using mapped rest by (simp add: drag_defs)
qed

text \<open>
  At a concrete input: nothing is dragged at first; the map event of the candidate
  returns a state that records window 5, and the invariant holds there.
\<close>

theorem drag_invariant_preserved_witness:
  "dragInvariant example_state
   \<and> isWindowBeingDragged (the (onWindowMapped example_env example_map_event example_state))
   \<and> dragInvariant (the (onWindowMapped example_env example_map_event example_state))
   \<and> dragInvariant (onWindowUnmapped example_env example_state)
   \<and> dragInvariant (clearAllDragFields example_state)"
proof -
  have inv: "dragInvariant example_state"
    by (simp add: dragInvariant_def example_defs drag_defs)
  obtain s' where ret:
    "onWindowMapped example_env example_map_event example_state = Some s'"
    by (simp add: onWindowMapped_def example_defs isMouseClickedAndHeldInWindow_def
        drag_defs collab_defs)
  have dragging:
    "isWindowBeingDragged (the (onWindowMapped example_env example_map_event example_state))"
    by (simp add: onWindowMapped_def onWindowMapped_plasma_def example_defs
        isMouseClickedAndHeldInWindow_def drag_defs collab_defs X_None_def Let_def)
  have all: "(case onWindowMapped example_env example_map_event example_state of
               None \<Rightarrow> True | Some s' \<Rightarrow> dragInvariant s')
     \<and> dragInvariant (onWindowUnmapped example_env example_state)
     \<and> dragInvariant (clearAllDragFields example_state)"
    using drag_invariant_preserved [OF inv, of example_env example_map_event] by simp
  then have "dragInvariant s'" by (simp add: ret)
  then show ?thesis
    using inv dragging all by (simp add: ret)
qed

subsection \<open>Workspace discovery with one monitor\<close>

text \<open>
  Claim C5, as stated: with one monitor reported, the call performs no probe-window
  operation at all, destroying included. It fails after a pass with two monitors: that
  pass leaves the id of its probe window, 77, in the static \<^verbatim>\<open>probeWindow\<close>, and the
  next pass destroys that window (line 145) before it asks for the monitors.
\<close>

theorem getCurrentWorkspaceData_destroys_old_probe:
  "env_XineramaQueryScreens example_env = Some [example_screen]
   \<and> probeWindow (getCurrentWorkspaceData example_two_monitor_env example_state) = 77
   \<and> drop (length (calls (getCurrentWorkspaceData example_two_monitor_env example_state)))
        (calls (getCurrentWorkspaceData example_env
                 (getCurrentWorkspaceData example_two_monitor_env example_state)))
       = [Call_XDestroyWindow 77]"
  by code_simp

text \<open>
  Claim C5, amended: when there is a desktop window and the monitor query returns no
  array or an array of one monitor, the call sets the number of visible workspaces to 1
  and the first entry to the current workspace, and changes nothing else but the call
  log, to which it adds one call: \<^verbatim>\<open>XDestroyWindow\<close> of the probe window an earlier
  pass left in the static \<^verbatim>\<open>probeWindow\<close>, when there is one, and otherwise the
  \<^verbatim>\<open>XInternAtom\<close> of the first call, which is no probe-window operation. No probe
  window is created, moved, mapped, waited on or unmapped.
\<close>

theorem getCurrentWorkspaceData_single_monitor:
  assumes "mGlobal_hasDestopWindow s"
    and "case env_XineramaQueryScreens e of None \<Rightarrow> True | Some info \<Rightarrow> length info = 1"
  shows "getCurrentWorkspaceData e s
     = s\<lparr>mGlobal_NVisWorkSpaces := 1,
          mGlobal_VisWorkSpaces := (mGlobal_VisWorkSpaces s)(0 := mGlobal_currentWorkspace s),
          calls := calls s @ [if probeWindow s \<noteq> 0 then Call_XDestroyWindow (probeWindow s)
                              else Call_XInternAtom ''_MOTIF_WM_HINTS'']\<rparr>"
  using assms
  by (simp add: getCurrentWorkspaceData_def onlyCurrentWorkspace_def collab_defs Let_def
      split: option.splits)

text \<open>
  At a concrete input: one monitor and no probe window from before; the visible
  workspaces are the current one, and no probe-window operation is logged.
\<close>

theorem getCurrentWorkspaceData_single_monitor_witness:
  "mGlobal_hasDestopWindow example_state
   \<and> env_XineramaQueryScreens example_env = Some [example_screen]
   \<and> mGlobal_NVisWorkSpaces (getCurrentWorkspaceData example_env example_state) = 1
   \<and> mGlobal_VisWorkSpaces (getCurrentWorkspaceData example_env example_state) 0
       = mGlobal_currentWorkspace example_state
   \<and> calls (getCurrentWorkspaceData example_env example_state)
       = [Call_XInternAtom ''_MOTIF_WM_HINTS'']"
proof -
  have h: "mGlobal_hasDestopWindow example_state"
    "case env_XineramaQueryScreens example_env of
       None \<Rightarrow> True | Some info \<Rightarrow> length info = 1"
    by (simp_all add: example_defs)
  show ?thesis
    using h by (simp add: getCurrentWorkspaceData_single_monitor [OF h]) (simp add: example_defs)
qed

subsection \<open>The screen index of getXineramaScreenInfo\<close>

text \<open>
  A requested screen below the length of the array is read in bounds, and the length
  is returned.
\<close>

lemma getXineramaScreenInfo_in_range:
  assumes "env_XineramaQueryScreens e = Some infoArray"
    and "0 \<le> requestScreen" and "requestScreen < int (length infoArray)"
  shows "getXineramaScreenInfo e requestScreen r
     = Inr (int (length infoArray),
            r\<lparr>resultScreenWidth := xi_width (infoArray ! nat requestScreen),
              resultScreenHeigth := xi_height (infoArray ! nat requestScreen),
              resultScreenPosX := xi_x_org (infoArray ! nat requestScreen),
              resultScreenPosY := xi_y_org (infoArray ! nat requestScreen)\<rparr>)"
  using assms by (simp add: getXineramaScreenInfo_def Let_def)

text \<open>
  Claim C10 says that for every non-negative requested screen and every array of at
  least one screen the index read is below the length of the array. The code bounds the
  request with \<^verbatim>\<open>requestScreen <= infoArrayLength\<close> and falls back to
  \<^verbatim>\<open>infoArrayLength\<close> itself, so a request at or above the length reads the element
  one past the end: with one screen and a request for screen 1, index 1 of an array of
  length 1.
\<close>

theorem getXineramaScreenInfo_reads_past_end:
  "getXineramaScreenInfo (e\<lparr>env_XineramaQueryScreens := Some [screen]\<rparr>) 1 r
     = Inl (ReadOutOfBounds 1 1)"
  by (simp add: getXineramaScreenInfo_def)

subsection \<open>Ticks that find the lock taken\<close>

lemma contended_tick:
  assumes "Flags_shutdownRequested s = 0" and "Flags_NoKeepSnowOnWindows s = 0"
    and "fst (env_softLock e 3 (mUpdateWindowsLockCounter s)) \<noteq> 0"
  shows "updateWindowsList e s
     = (True, s\<lparr>mUpdateWindowsLockCounter :=
                  snd (env_softLock e 3 (mUpdateWindowsLockCounter s)),
                calls := calls s @ [Call_softLockFallenSnowBaseSemaphore]\<rparr>)"
  using assms by (simp add: updateWindowsList_def collab_defs)

text \<open>
  Claim C6: in a run of any length in which every tick tries the lock and does not get
  it, every tick returns true, and the state after the run is the state before it but
  for the module's lock counter, which the lock function owns, and the call log, which
  has one lock attempt more per tick. So the drag state, the window list, the workspace
  fields and \<^verbatim>\<open>mGlobal.WindowsChanged\<close> are as before.
\<close>

theorem contended_ticks_frame:
  assumes "Flags_shutdownRequested s = 0" and "Flags_NoKeepSnowOnWindows s = 0"
    and "contended es s"
  shows "fst (runTicks es s) = replicate (length es) True
     \<and> (snd (runTicks es s))\<lparr>mUpdateWindowsLockCounter := mUpdateWindowsLockCounter s,
                               calls := calls s\<rparr> = s
     \<and> calls (snd (runTicks es s))
         = calls s @ replicate (length es) Call_softLockFallenSnowBaseSemaphore"
  using assms
proof (induction es arbitrary: s)
  case Nil
  then show ?case by simp
next
  case (Cons e es)
  let ?s1 = "s\<lparr>mUpdateWindowsLockCounter :=
                  snd (env_softLock e 3 (mUpdateWindowsLockCounter s)),
                calls := calls s @ [Call_softLockFallenSnowBaseSemaphore]\<rparr>"
  have tick: "updateWindowsList e s = (True, ?s1)"
    using Cons.prems by (simp add: contended_tick)
  have "contended es ?s1" using Cons.prems tick by simp
  moreover have "Flags_shutdownRequested ?s1 = 0" "Flags_NoKeepSnowOnWindows ?s1 = 0"
    using Cons.prems by simp_all
  ultimately have IH:
    "fst (runTicks es ?s1) = replicate (length es) True"
    "(snd (runTicks es ?s1))\<lparr>mUpdateWindowsLockCounter := mUpdateWindowsLockCounter ?s1,
                                 calls := calls ?s1\<rparr> = ?s1"
    "calls (snd (runTicks es ?s1))
       = calls ?s1 @ replicate (length es) Call_softLockFallenSnowBaseSemaphore"
    using Cons.IH [of ?s1] by simp_all
  have "(snd (runTicks es ?s1))\<lparr>mUpdateWindowsLockCounter := mUpdateWindowsLockCounter s,
                                 calls := calls s\<rparr>
      = ((snd (runTicks es ?s1))\<lparr>mUpdateWindowsLockCounter := mUpdateWindowsLockCounter ?s1,
                                   calls := calls ?s1\<rparr>)
          \<lparr>mUpdateWindowsLockCounter := mUpdateWindowsLockCounter s, calls := calls s\<rparr>"
    by simp
  also have "\<dots> = s" by (simp only: IH(2)) simp
  finally have frame:
    "(snd (runTicks es ?s1))\<lparr>mUpdateWindowsLockCounter := mUpdateWindowsLockCounter s,
                               calls := calls s\<rparr> = s" .
  show ?case
    using IH(1,3) frame by (simp add: tick case_prod_beta)
qed

text \<open>At a concrete input: three ticks in a row find the lock taken.\<close>

theorem contended_ticks_frame_witness:
  "Flags_shutdownRequested example_state = 0
   \<and> Flags_NoKeepSnowOnWindows example_state = 0
   \<and> contended [example_locked_env, example_locked_env, example_locked_env] example_state
   \<and> fst (runTicks [example_locked_env, example_locked_env, example_locked_env]
             example_state) = [True, True, True]
   \<and> calls (snd (runTicks [example_locked_env, example_locked_env, example_locked_env]
                    example_state))
       = [Call_softLockFallenSnowBaseSemaphore, Call_softLockFallenSnowBaseSemaphore,
          Call_softLockFallenSnowBaseSemaphore]"
proof -
  have h: "Flags_shutdownRequested example_state = 0"
    "Flags_NoKeepSnowOnWindows example_state = 0"
    "contended [example_locked_env, example_locked_env, example_locked_env] example_state"
    by (simp_all add: example_defs updateWindowsList_def collab_defs)
  have c: "calls example_state = []" by (simp add: example_defs)
  show ?thesis
    using h contended_ticks_frame [OF h] by (simp add: c)
qed

subsection \<open>The lost workspace\<close>

text \<open>
  Claim C7: a tick that gets the lock and gets past the "changed" test (the flag is set,
  or the counter forces it) and is then told a negative workspace number releases the
  lock, prints and shows the message "Virtual workspace has been lost - FATAL.", sets
  \<^verbatim>\<open>Flags.shutdownRequested\<close> and returns true. Its calls are the lock, the workspace
  query, the unlock, \<^verbatim>\<open>printf\<close> and \<^verbatim>\<open>displayMessageBox\<close>, and besides the flag,
  the counters and \<^verbatim>\<open>mGlobal.WindowsChanged\<close> the state is as before: the window list
  and the workspace fields are untouched. The next tick, whatever the answers, returns
  false and changes nothing.
\<close>

theorem updateWindowsList_workspace_lost:
  assumes "Flags_shutdownRequested s = 0" and "Flags_NoKeepSnowOnWindows s = 0"
    and "fst (env_softLock e 3 (mUpdateWindowsLockCounter s)) = 0"
    and "mGlobal_WindowsChanged s \<noteq> 0 \<or> int32 (wcounter s + 1) > 9"
    and "env_currentWorkspaceNumber e < 0"
  shows "updateWindowsList e s
     = (True, s\<lparr>mUpdateWindowsLockCounter :=
                  snd (env_softLock e 3 (mUpdateWindowsLockCounter s)),
                wcounter := (if int32 (wcounter s + 1) > 9 then 0 else int32 (wcounter s + 1)),
                mGlobal_WindowsChanged := 0,
                Flags_shutdownRequested := 1,
                calls := calls s @
                  [Call_softLockFallenSnowBaseSemaphore,
                   Call_getCurrentWorkspaceNumber,
                   Call_unlockFallenSnowSemaphore,
                   Call_printf ''plasmasnow: Virtual workspace has been lost - FATAL.'',
                   Call_displayMessageBox ''plasmasnow''
                     ''Virtual workspace has been lost - FATAL.'']\<rparr>)
     \<and> updateWindowsList e' (snd (updateWindowsList e s))
         = (False, snd (updateWindowsList e s))"
proof -
  have first: "updateWindowsList e s
     = (True, s\<lparr>mUpdateWindowsLockCounter :=
                  snd (env_softLock e 3 (mUpdateWindowsLockCounter s)),
                wcounter := (if int32 (wcounter s + 1) > 9 then 0 else int32 (wcounter s + 1)),
                mGlobal_WindowsChanged := 0,
                Flags_shutdownRequested := 1,
                calls := calls s @
                  [Call_softLockFallenSnowBaseSemaphore,
                   Call_getCurrentWorkspaceNumber,
                   Call_unlockFallenSnowSemaphore,
                   Call_printf ''plasmasnow: Virtual workspace has been lost - FATAL.'',
                   Call_displayMessageBox ''plasmasnow''
                     ''Virtual workspace has been lost - FATAL.'']\<rparr>)"
    using assms
    by (auto simp add: updateWindowsList_def updateWindowsList_changed_def fatal_def
        collab_defs Let_def)
  show ?thesis
    by (simp only: first) (simp add: updateWindowsList_def)
qed

text \<open>
  At a concrete input: the "changed" flag is set and the workspace query answers -1.
\<close>

theorem updateWindowsList_workspace_lost_witness:
  "Flags_shutdownRequested (example_state\<lparr>mGlobal_WindowsChanged := 1\<rparr>) = 0
   \<and> env_currentWorkspaceNumber example_lost_env < 0
   \<and> fst (updateWindowsList example_lost_env
             (example_state\<lparr>mGlobal_WindowsChanged := 1\<rparr>))
   \<and> Flags_shutdownRequested
        (snd (updateWindowsList example_lost_env
               (example_state\<lparr>mGlobal_WindowsChanged := 1\<rparr>))) = 1
   \<and> mGlobal_winInfoList
        (snd (updateWindowsList example_lost_env
               (example_state\<lparr>mGlobal_WindowsChanged := 1\<rparr>))) = []
   \<and> \<not> fst (updateWindowsList example_env
               (snd (updateWindowsList example_lost_env
                      (example_state\<lparr>mGlobal_WindowsChanged := 1\<rparr>))))"
proof -
  let ?s = "example_state\<lparr>mGlobal_WindowsChanged := 1\<rparr>"
  have h: "Flags_shutdownRequested ?s = 0" "Flags_NoKeepSnowOnWindows ?s = 0"
    "fst (env_softLock example_lost_env 3 (mUpdateWindowsLockCounter ?s)) = 0"
    "mGlobal_WindowsChanged ?s \<noteq> 0 \<or> int32 (wcounter ?s + 1) > 9"
    "env_currentWorkspaceNumber example_lost_env < 0"
    by (simp_all add: example_defs)
  have w: "mGlobal_winInfoList ?s = []" by (simp add: example_defs)
  note lost = updateWindowsList_workspace_lost [OF h, of example_env]
  have r: "fst (updateWindowsList example_lost_env ?s)"
    "Flags_shutdownRequested (snd (updateWindowsList example_lost_env ?s)) = 1"
    "mGlobal_winInfoList (snd (updateWindowsList example_lost_env ?s)) = []"
    using w by (simp_all add: lost [THEN conjunct1])
  have n: "\<not> fst (updateWindowsList example_env
                      (snd (updateWindowsList example_lost_env ?s)))"
    by (simp only: lost [THEN conjunct2]) simp
  show ?thesis
    using h(1,5) r n by simp
qed

subsection \<open>The forced refresh\<close>

















end
